theory Spec2Isabelle
  imports Main
begin

section \<open>Configuration and platform\<close>

text \<open>
  The configuration object read through \<open>appconfig.RequireConfig()\<close>. Its declaration is not
  part of the sources at hand; the fields are the ones the code reads
  (\<open>appConf.Mqtt.AutoDiscoveryPrefix\<close>, \<open>appConf.DeviceId\<close>, \<open>appConf.DeviceName\<close>,
  \<open>appConf.DebugMode\<close>, \<open>appConf.Mqtt.Host\<close>, ...).
\<close>

record MqttConfig =
  Host :: string
  Port :: nat
  Username :: string
  Password :: string
  AutoDiscoveryPrefix :: string

record AppConfig =
  DeviceId :: string
  DeviceName :: string
  DebugMode :: bool
  Mqtt :: MqttConfig

text \<open>The two constants of package \<open>runtime\<close> the code reads.\<close>

record Runtime =
  GOOS :: string
  GOARCH :: string

section \<open>Package system: platform commands\<close>

definition WINDOWS :: string where "WINDOWS = ''windows''"
definition MACOS :: string where "MACOS = ''darwin''"
definition LINUX :: string where "LINUX = ''linux''"

text \<open>\<open>exec.Command(name, arg...)\<close>: the executable and its arguments.\<close>

datatype Cmd = Command string "string list"

text \<open>
  A Go result pair \<open>(*exec.Cmd, error)\<close> is a sum: \<open>Inl\<close> carries the error
  (then the command is nil), \<open>Inr\<close> the command (then the error is nil).
\<close>

definition GetShutdownCommand :: "Runtime \<Rightarrow> string + Cmd" where
  "GetShutdownCommand rt =
     (if GOOS rt = WINDOWS then Inr (Command ''shutdown'' [''/s''])
      else if GOOS rt = MACOS then Inr (Command ''shutdown'' [''-h'', ''now''])
      else if GOOS rt = LINUX then Inr (Command ''systemctl'' [''poweroff'', ''--ignore-inhibitors''])
      else Inl (GOOS rt @ '' does not support shutdown''))"

definition GetRebootCommand :: "Runtime \<Rightarrow> string + Cmd" where
  "GetRebootCommand rt =
     (if GOOS rt = WINDOWS then Inr (Command ''shutdown'' [''/r''])
      else if GOOS rt = MACOS then Inr (Command ''reboot'' [])
      else if GOOS rt = LINUX then Inr (Command ''systemctl'' [''reboot'', ''--ignore-inhibitors''])
      else Inl (GOOS rt @ '' does not support reboot''))"

section \<open>Package entities: the entity model\<close>

definition payloadOnline :: string where "payloadOnline = ''online''"
definition payloadOffline :: string where "payloadOffline = ''offline''"

record Device =
  Identifiers :: string
  Manufacturer :: string
  Model :: string
  Name :: string

record Availability =
  Topic :: string
  PayloadAvailable :: string
  PayloadNotAvailable :: string

text \<open>
  The discovery descriptor, with the fields the composite literals of \<open>GetEntities\<close> set.
  A field a literal leaves out has Go's zero value: the empty string, or 0 for \<open>Qos\<close>.
  The display name is \<open>DisplayName\<close> here (\<open>Name\<close> in the source, which is also a
  field of \<open>Device\<close>).
\<close>

record DiscoveryConfig =
  Device :: Device
  Availability :: Availability
  DefaultEntityId :: string
  UniqueId :: string
  DisplayName :: string
  Icon :: string
  StateTopic :: string
  CommandTopic :: string
  PayloadOn :: string
  PayloadOff :: string
  Qos :: nat

text \<open>
  The three function literals \<open>GetEntities\<close> stores in the \<open>Action\<close> field of its buttons,
  named by the button that carries them. \<open>run_action\<close> below is their bodies.
\<close>

datatype Action = ShutdownAction | RebootAction | TestAction

text \<open>
  The two entity variants, with the fields of their composite literals:
  \<open>BinarySensor{DiscoveryTopic, DiscoveryConfig}\<close> and
  \<open>Button{Action, DiscoveryTopic, DiscoveryConfig}\<close>.
\<close>

datatype Entity =
    BinarySensor string DiscoveryConfig
  | Button Action string DiscoveryConfig

text \<open>
  Modelled from the spec: the methods \<open>GetDiscoveryTopic\<close> and \<open>GetDiscoveryConfig\<close> of
  the entity variants are not among the sources at hand. The spec has every entity expose
  its discovery topic and its discovery config: the two fields of the literals.
\<close>

fun GetDiscoveryTopic :: "Entity \<Rightarrow> string" where
  "GetDiscoveryTopic (BinarySensor t d) = t"
| "GetDiscoveryTopic (Button a t d) = t"

fun GetDiscoveryConfig :: "Entity \<Rightarrow> DiscoveryConfig" where
  "GetDiscoveryConfig (BinarySensor t d) = d"
| "GetDiscoveryConfig (Button a t d) = d"

fun is_Button :: "Entity \<Rightarrow> bool" where
  "is_Button (BinarySensor t d) = False"
| "is_Button (Button a t d) = True"

definition GetDeviceAvailability :: "AppConfig \<Rightarrow> Availability" where
  "GetDeviceAvailability appConf =
     \<lparr> Topic = DeviceName appConf @ ''/state'',
       PayloadAvailable = payloadOnline,
       PayloadNotAvailable = payloadOffline \<rparr>"

definition GetDevice :: "Runtime \<Rightarrow> AppConfig \<Rightarrow> Device" where
  "GetDevice rt appConf =
     \<lparr> Identifiers = DeviceId appConf,
       Manufacturer = GOOS rt @ ''/'' @ GOARCH rt,
       Model = DeviceName appConf,
       Name = DeviceName appConf \<rparr>"

definition power_sensor :: "Runtime \<Rightarrow> AppConfig \<Rightarrow> Entity" where
  "power_sensor rt appConf =
     BinarySensor
       (AutoDiscoveryPrefix (Mqtt appConf) @ ''/binary_sensor/'' @ DeviceId appConf @ ''/''
          @ DeviceName appConf @ ''_sensor_power/config'')
       \<lparr> Device = GetDevice rt appConf,
         Availability =
           \<lparr> Topic = DeviceName appConf @ ''/binary_sensor/availability'',
             PayloadAvailable = payloadOnline,
             PayloadNotAvailable = payloadOffline \<rparr>,
         DefaultEntityId = ''binary_sensor.'' @ DeviceName appConf @ ''_sensor_power'',
         UniqueId = DeviceName appConf @ ''_sensor_power'',
         DisplayName = ''Power'',
         Icon = ''mdi:power'',
         StateTopic = Topic (GetDeviceAvailability appConf),
         CommandTopic = '''',
         PayloadOn = PayloadAvailable (GetDeviceAvailability appConf),
         PayloadOff = PayloadNotAvailable (GetDeviceAvailability appConf),
         Qos = 1 \<rparr>"

definition shutdown_button :: "Runtime \<Rightarrow> AppConfig \<Rightarrow> Entity" where
  "shutdown_button rt appConf =
     Button ShutdownAction
       (AutoDiscoveryPrefix (Mqtt appConf) @ ''/button/'' @ DeviceId appConf @ ''/''
          @ DeviceName appConf @ ''_button_shutdown/config'')
       \<lparr> Device = GetDevice rt appConf,
         Availability = GetDeviceAvailability appConf,
         DefaultEntityId = ''button.'' @ DeviceName appConf @ ''_button_shutdown'',
         UniqueId = DeviceName appConf @ ''_button_shutdown'',
         DisplayName = ''Shutdown'',
         Icon = ''mdi:power'',
         StateTopic = DeviceName appConf @ ''/button/shutdown/state'',
         CommandTopic = DeviceName appConf @ ''/button/shutdown/command'',
         PayloadOn = '''',
         PayloadOff = '''',
         Qos = 1 \<rparr>"

definition reboot_button :: "Runtime \<Rightarrow> AppConfig \<Rightarrow> Entity" where
  "reboot_button rt appConf =
     Button RebootAction
       (AutoDiscoveryPrefix (Mqtt appConf) @ ''/button/'' @ DeviceId appConf @ ''/''
          @ DeviceName appConf @ ''_button_reboot/config'')
       \<lparr> Device = GetDevice rt appConf,
         Availability = GetDeviceAvailability appConf,
         DefaultEntityId = ''button.'' @ DeviceName appConf @ ''_button_reboot'',
         UniqueId = DeviceName appConf @ ''_button_reboot'',
         DisplayName = ''Reboot'',
         Icon = ''mdi:restart'',
         StateTopic = DeviceName appConf @ ''/button/reboot/state'',
         CommandTopic = DeviceName appConf @ ''/button/reboot/command'',
         PayloadOn = '''',
         PayloadOff = '''',
         Qos = 1 \<rparr>"

text \<open>The debug button's literal sets no \<open>Qos\<close>: the field keeps its zero value.\<close>

definition test_button :: "Runtime \<Rightarrow> AppConfig \<Rightarrow> Entity" where
  "test_button rt appConf =
     Button TestAction
       (AutoDiscoveryPrefix (Mqtt appConf) @ ''/button/'' @ DeviceId appConf @ ''/''
          @ DeviceName appConf @ ''_button_test/config'')
       \<lparr> Device = GetDevice rt appConf,
         Availability = GetDeviceAvailability appConf,
         DefaultEntityId = ''button.'' @ DeviceName appConf @ ''_button_test'',
         UniqueId = DeviceName appConf @ ''_button_test'',
         DisplayName = ''Test'',
         Icon = ''mdi:test-tube'',
         StateTopic = DeviceName appConf @ ''/button/test/state'',
         CommandTopic = DeviceName appConf @ ''/button/test/command'',
         PayloadOn = '''',
         PayloadOff = '''',
         Qos = 0 \<rparr>"

text \<open>
  \<open>GetEntities\<close>: the literal of three entities, and the \<open>append\<close> of the fourth when
  \<open>appConf.DebugMode\<close> is set.
\<close>

definition GetEntities :: "Runtime \<Rightarrow> AppConfig \<Rightarrow> Entity list" where
  "GetEntities rt appConf =
     (let entityList = [power_sensor rt appConf, shutdown_button rt appConf, reboot_button rt appConf]
      in if DebugMode appConf then entityList @ [test_button rt appConf] else entityList)"

text \<open>
  Modelled from the spec: \<open>FilterEntitiesWithCommands\<close> is not among the sources at hand.
  The spec has it keep exactly the Button-like entities, in input order, and drop the
  BinarySensor-like ones.
\<close>

definition FilterEntitiesWithCommands :: "Entity list \<Rightarrow> Entity list" where
  "FilterEntitiesWithCommands entityList = filter is_Button entityList"

section \<open>What the process does: events\<close>

text \<open>
  The arguments of a \<open>log.Printf\<close> or \<open>fmt.Sprintf\<close> call: a string, a number, or the
  result of a nested \<open>Sprintf\<close>. A log line is kept as its format string and arguments.
\<close>

datatype Arg = S string | N nat | Sprintf string "Arg list"

text \<open>
  The calls the code makes on its collaborators, in the order it makes them:
  the logger, the transport client (\<open>Publish(topic, qos, retained, payload)\<close>,
  \<open>SubscribeMultiple(filters, handler)\<close> with the handler given by the entity list it closes
  over, \<open>Connect\<close>, \<open>Disconnect(ms)\<close>), the waits on a token (\<open>Wait\<close>,
  \<open>WaitTimeout(ms)\<close>), \<open>time.Sleep(ms)\<close>, the \<open>select\<close> on the connection signal with its
  timer (seconds), \<open>entity.QueueAction()\<close> on an entity with a command, \<open>cmd.Start()\<close>,
  \<open>mainCancel()\<close> and \<open>os.Exit(code)\<close>.
\<close>

datatype Event =
    Log string "Arg list"
  | Publish string nat bool string
  | SubscribeMultiple "string \<rightharpoonup> nat" "Entity list"
  | Connect
  | Disconnect nat
  | Wait
  | WaitTimeout nat
  | Sleep nat
  | SelectWait nat
  | QueueAction Entity
  | Start Cmd
  | CancelMain
  | Exit nat

text \<open>
  A token of the transport, as the code reads it: whether it completes within a bounded
  wait (what \<open>WaitTimeout\<close> returns; \<open>Wait\<close> returns once it has completed), and
  \<open>token.Error()\<close>. The transport is the environment: it answers the k-th publish or
  subscribe call of the process with the token \<open>tp k\<close>.
\<close>

record Token =
  InTime :: bool
  Error :: "string option"

type_synonym Transport = "nat \<Rightarrow> Token"

text \<open>\<open>json.Marshal\<close> on a discovery config: the JSON text, or an error.\<close>

type_synonym Marshal = "DiscoveryConfig \<Rightarrow> string + string"

definition debugLog :: "AppConfig \<Rightarrow> string \<Rightarrow> Arg list \<Rightarrow> Event list" where
  "debugLog appConf message args = (if DebugMode appConf then [Log message args] else [])"

text \<open>
  A \<open>for ... range xs\<close> loop whose body makes calls and may \<open>continue\<close>: the body gives
  the events of one iteration and the number of transport calls made so far.
\<close>

fun range_loop :: "('a \<Rightarrow> nat \<Rightarrow> Event list \<times> nat) \<Rightarrow> 'a list \<Rightarrow> nat \<Rightarrow> Event list \<times> nat" where
  "range_loop body [] k = ([], k)"
| "range_loop body (x # xs) k =
     (let (evs, k1) = body x k;
          (evs', k2) = range_loop body xs k1
      in (evs @ evs', k2))"

section \<open>Package main: publication\<close>

definition discovery_body :: "Marshal \<Rightarrow> AppConfig \<Rightarrow> Transport \<Rightarrow> nat \<times> Entity \<Rightarrow> nat \<Rightarrow> Event list \<times> nat" where
  "discovery_body marshal appConf tp iety k =
     (let i = fst iety; ety = snd iety in
      case marshal (GetDiscoveryConfig ety) of
        Inl err \<Rightarrow> ([Log ''Error marshaling discovery config for entity %d: %v'' [N i, S err]], k)
      | Inr configJson \<Rightarrow>
          (let topic = GetDiscoveryTopic ety;
               token = tp k
           in ([Publish topic 1 True configJson, Wait] @
               (case Error token of
                  Some e \<Rightarrow> [Log ''Error publishing discovery config to %q: %v'' [S topic, S e]]
                | None \<Rightarrow> debugLog appConf ''Published discovery config to %q'' [S topic]),
               Suc k)))"

definition publishAutoDiscoveryConfigs :: "Marshal \<Rightarrow> AppConfig \<Rightarrow> Transport \<Rightarrow> Entity list \<Rightarrow> nat \<Rightarrow> Event list \<times> nat" where
  "publishAutoDiscoveryConfigs marshal appConf tp entityList k =
     (let (evs, k') = range_loop (discovery_body marshal appConf tp) (enumerate 0 entityList) k
      in ([Log ''Publishing auto-discovery configs for %d entities...'' [N (length entityList)]]
          @ evs @ [Log ''Auto-discovery configs published successfully'' []], k'))"

definition availability_body :: "AppConfig \<Rightarrow> Transport \<Rightarrow> Entity \<Rightarrow> nat \<Rightarrow> Event list \<times> nat" where
  "availability_body appConf tp ety k =
     (let availability = Availability (GetDiscoveryConfig ety);
          payload = PayloadAvailable availability;
          token = tp k
      in ([Publish (Topic availability) 1 True payload, Wait] @
          (case Error token of
             Some e \<Rightarrow> [Log ''Error publishing availability to %q: %v'' [S (Topic availability), S e]]
           | None \<Rightarrow> debugLog appConf ''Published availability to %q'' [S (Topic availability)]),
          Suc k))"

definition publishAvailability :: "AppConfig \<Rightarrow> Transport \<Rightarrow> Entity list \<Rightarrow> nat \<Rightarrow> Event list \<times> nat" where
  "publishAvailability appConf tp entityList k =
     (let (evs, k') = range_loop (availability_body appConf tp) entityList k
      in ([Log ''Publishing availability for %d entities...'' [N (length entityList)]]
          @ evs @ [Log ''Availability messages published successfully'' []], k'))"

text \<open>The type switch of \<open>publishSensorStates\<close>: the binary sensors of the list, in order.\<close>

fun binary_sensors :: "Entity list \<Rightarrow> Entity list" where
  "binary_sensors [] = []"
| "binary_sensors (BinarySensor t d # rest) = BinarySensor t d # binary_sensors rest"
| "binary_sensors (Button a t d # rest) = binary_sensors rest"

definition sensor_body :: "AppConfig \<Rightarrow> Transport \<Rightarrow> Entity \<Rightarrow> nat \<Rightarrow> Event list \<times> nat" where
  "sensor_body appConf tp sensor k =
     (let topic = StateTopic (GetDiscoveryConfig sensor);
          payload = PayloadOn (GetDiscoveryConfig sensor);
          token = tp k
      in ([Publish topic 1 True payload, Wait] @
          (case Error token of
             Some e \<Rightarrow> [Log ''Error publishing sensor state to %q: %v'' [S topic, S e]]
           | None \<Rightarrow> debugLog appConf ''Published sensor state to %q'' [S topic]),
          Suc k))"

definition publishSensorStates :: "AppConfig \<Rightarrow> Transport \<Rightarrow> Entity list \<Rightarrow> nat \<Rightarrow> Event list \<times> nat" where
  "publishSensorStates appConf tp entityList k =
     (let sensors = binary_sensors entityList in
      if length sensors = 0 then (debugLog appConf ''No binary sensors to publish'' [], k)
      else
        (let (evs, k') = range_loop (sensor_body appConf tp) sensors k
         in ([Log ''Publishing states for %d binary sensors...'' [N (length sensors)]]
             @ evs @ [Log ''Sensor states published successfully'' []], k')))"

section \<open>Package main: command subscription and dispatch\<close>

text \<open>
  The scan of the handler: the first entity whose command topic is the message's wins
  (\<open>break\<close>); the result says whether one matched.
\<close>

fun dispatch :: "Entity list \<Rightarrow> string \<Rightarrow> Event list \<times> bool" where
  "dispatch [] topic = ([], False)"
| "dispatch (entity # rest) topic =
     (if CommandTopic (GetDiscoveryConfig entity) = topic
      then ([Log ''Executing command for topic %q'' [S topic], QueueAction entity], True)
      else dispatch rest topic)"

text \<open>
  The message handler, a closure over \<open>entitiesWithCommands\<close> and its counter
  \<open>messageCount\<close>; a message is its topic and its payload. The counter is only logged;
  it is a natural number here (a Go \<open>int\<close> in the source).
\<close>

definition handler :: "Entity list \<Rightarrow> nat \<Rightarrow> string \<times> string \<Rightarrow> Event list \<times> nat" where
  "handler entitiesWithCommands messageCount msg =
     (let messageCount = messageCount + 1;
          topic = fst msg;
          payload = snd msg;
          (evs, matched) = dispatch entitiesWithCommands topic
      in (Log ''Received message #%d on topic %q: %q'' [N messageCount, S topic, S payload] # evs @
          (if \<not> matched then [Log ''Warning: Received message on unhandled topic %q'' [S topic]] else []),
          messageCount))"

fun filters_loop :: "AppConfig \<Rightarrow> Entity list \<Rightarrow> (string \<rightharpoonup> nat) \<Rightarrow> Event list \<times> (string \<rightharpoonup> nat)" where
  "filters_loop appConf [] filters = ([], filters)"
| "filters_loop appConf (ety # rest) filters =
     (let topic = CommandTopic (GetDiscoveryConfig ety);
          (evs, filters') = filters_loop appConf rest (filters(topic \<mapsto> 1))
      in (debugLog appConf ''Subscribing to topic: %s'' [S topic] @ evs, filters'))"

text \<open>The check mark that opens the "ready" line of the source, as its three UTF-8 bytes.\<close>

definition ready_line :: string where
  "ready_line = [CHR 0xE2, CHR 0x9C, CHR 0x93] @ '' Ready to receive commands''"

definition subscribeToCommandTopics :: "AppConfig \<Rightarrow> Transport \<Rightarrow> Entity list \<Rightarrow> nat \<Rightarrow> Event list \<times> nat" where
  "subscribeToCommandTopics appConf tp entitiesWithCommands k =
     (if length entitiesWithCommands = 0 then ([Log ''No command topics to subscribe to'' []], k)
      else
        (let (dbg, filters) = filters_loop appConf entitiesWithCommands Map.empty;
             token = tp k
         in ([Log ''Will subscribe to %d command topic(s)'' [N (length entitiesWithCommands)]]
             @ dbg @ [SubscribeMultiple filters entitiesWithCommands, Wait] @
             (case Error token of
                Some e \<Rightarrow> [Log ''Failed to subscribe to command topics: %v'' [S e]]
              | None \<Rightarrow> Log ready_line [] #
                  debugLog appConf ''Successfully subscribed to %d topics'' [N (length entitiesWithCommands)]),
             Suc k)))"

section \<open>Package main: the transport's callbacks\<close>

text \<open>
  The package-level variables: the two one-slot channels (the number of signals each
  holds) and the flag \<open>initialConnectionDone\<close>.
\<close>

record Globals =
  connectionLost :: nat
  connectionEstablished :: nat
  initialConnectionDone :: bool

definition initial_globals :: Globals where
  "initial_globals = \<lparr> connectionLost = 0, connectionEstablished = 0, initialConnectionDone = False \<rparr>"

text \<open>
  \<open>select { case ch <- struct{}{}: default: }\<close> on a channel of capacity 1: the signal
  is stored when the slot is free and dropped otherwise.
\<close>

definition try_send :: "nat \<Rightarrow> nat" where
  "try_send buffered = (if buffered < 1 then buffered + 1 else buffered)"

text \<open>
  The goroutine the on-connect callback starts (\<open>go func() { ... }()\<close>), by the statement
  it is at: the read of the flag, the discovery publishes, the write of the flag, and the
  three steps every connection makes. Each publish blocks on its token, so between two of
  these statements the goroutine may stay suspended while the transport delivers further
  callbacks and other goroutines run. Nothing in the source orders the goroutine of one
  connection against the callback or the goroutine of the next.
\<close>

datatype Pc =
    AtFlagRead
  | AtDiscovery
  | AtFlagWrite
  | AtAvailability
  | AtSensorStates
  | AtSubscribe
  | Returned

text \<open>
  One statement of the goroutine body, from the flag and the count of transport calls:
  where the goroutine is next, the events of the statement, the flag and the count after it.
\<close>

fun post_connect_step :: "Marshal \<Rightarrow> Runtime \<Rightarrow> AppConfig \<Rightarrow> Transport \<Rightarrow> Pc \<Rightarrow> bool \<Rightarrow> nat \<Rightarrow> Pc \<times> Event list \<times> bool \<times> nat" where
  "post_connect_step marshal rt appConf tp AtFlagRead done k =
     (if \<not> done then AtDiscovery else AtAvailability, [], done, k)"
| "post_connect_step marshal rt appConf tp AtDiscovery done k =
     (let (evs, k') = publishAutoDiscoveryConfigs marshal appConf tp (GetEntities rt appConf) k
      in (AtFlagWrite, evs, done, k'))"
| "post_connect_step marshal rt appConf tp AtFlagWrite done k = (AtAvailability, [], True, k)"
| "post_connect_step marshal rt appConf tp AtAvailability done k =
     (let (evs, k') = publishAvailability appConf tp (GetEntities rt appConf) k
      in (AtSensorStates, evs, done, k'))"
| "post_connect_step marshal rt appConf tp AtSensorStates done k =
     (let (evs, k') = publishSensorStates appConf tp (GetEntities rt appConf) k
      in (AtSubscribe, evs, done, k'))"
| "post_connect_step marshal rt appConf tp AtSubscribe done k =
     (let (evs, k') = subscribeToCommandTopics appConf tp
                        (FilterEntitiesWithCommands (GetEntities rt appConf)) k
      in (Returned, evs, done, k'))"
| "post_connect_step marshal rt appConf tp Returned done k = (Returned, [], done, k)"

text \<open>
  The running process: the package-level variables, the goroutines started by the
  on-connect callbacks (the i-th belongs to the i-th connection), each with the statement
  it is at and the events it has made, the count of transport calls, and the events of the
  callbacks themselves.
\<close>

record Process =
  vars :: Globals
  routines :: "(Pc \<times> Event list) list"
  calls :: nat
  callback_events :: "Event list"

definition initial_process :: Process where
  "initial_process = \<lparr> vars = initial_globals, routines = [], calls = 0, callback_events = [] \<rparr>"

text \<open>
  The on-connect callback: the log line, the non-blocking send on \<open>connectionEstablished\<close>,
  and the start of the goroutine. The callback returns without waiting for it.
\<close>

definition onConnect :: "AppConfig \<Rightarrow> Process \<Rightarrow> Process" where
  "onConnect appConf p =
     p\<lparr> callback_events := callback_events p @
           [Log ''Connected to %q:%d'' [S (Host (Mqtt appConf)), N (Port (Mqtt appConf))]],
        vars := (vars p)\<lparr>connectionEstablished := try_send (connectionEstablished (vars p))\<rparr>,
        routines := routines p @ [(AtFlagRead, [])] \<rparr>"

text \<open>The warning sign that opens the "connection lost" line, as its three UTF-8 bytes.\<close>

definition lost_line :: string where
  "lost_line = [CHR 0xE2, CHR 0x9A, CHR 0xA0] @ '' Connection lost: %v''"

definition onConnectionLost :: "string \<Rightarrow> Process \<Rightarrow> Process" where
  "onConnectionLost err p =
     p\<lparr> callback_events := callback_events p @ [Log lost_line [S err]],
        vars := (vars p)\<lparr>connectionLost := try_send (connectionLost (vars p))\<rparr> \<rparr>"

definition onReconnecting :: "Process \<Rightarrow> Process" where
  "onReconnecting p =
     p\<lparr> callback_events := callback_events p @
           [Log ''Attempting to reconnect to MQTT broker...'' []] \<rparr>"

text \<open>The callbacks the transport delivers.\<close>

datatype Callback = OnConnect | OnConnectionLost string | OnReconnecting

fun deliver :: "AppConfig \<Rightarrow> Callback \<Rightarrow> Process \<Rightarrow> Process" where
  "deliver appConf OnConnect p = onConnect appConf p"
| "deliver appConf (OnConnectionLost err) p = onConnectionLost err p"
| "deliver appConf OnReconnecting p = onReconnecting p"

text \<open>
  Goroutine \<open>i\<close> runs its next statement: it reads or writes the shared flag and the count
  of transport calls, and appends its events to its own trace.
\<close>

definition run_routine :: "Marshal \<Rightarrow> Runtime \<Rightarrow> AppConfig \<Rightarrow> Transport \<Rightarrow> nat \<Rightarrow> Process \<Rightarrow> Process" where
  "run_routine marshal rt appConf tp i p =
     (if i < length (routines p)
      then (let (pc, tr) = routines p ! i;
                (pc', evs, done, k) =
                  post_connect_step marshal rt appConf tp pc (initialConnectionDone (vars p)) (calls p)
            in p\<lparr> vars := (vars p)\<lparr>initialConnectionDone := done\<rparr>,
                  routines := (routines p)[i := (pc', tr @ evs)],
                  calls := k \<rparr>)
      else p)"

text \<open>
  One run of the process after startup is a schedule: at each point either the transport
  delivers a callback, or one of the goroutines runs its next statement.
\<close>

datatype Sched = Deliver Callback | Run nat

fun exec :: "Marshal \<Rightarrow> Runtime \<Rightarrow> AppConfig \<Rightarrow> Transport \<Rightarrow> Sched \<Rightarrow> Process \<Rightarrow> Process" where
  "exec marshal rt appConf tp (Deliver cb) p = deliver appConf cb p"
| "exec marshal rt appConf tp (Run i) p = run_routine marshal rt appConf tp i p"

fun run_schedule :: "Marshal \<Rightarrow> Runtime \<Rightarrow> AppConfig \<Rightarrow> Transport \<Rightarrow> Sched list \<Rightarrow> Process \<Rightarrow> Process" where
  "run_schedule marshal rt appConf tp [] p = p"
| "run_schedule marshal rt appConf tp (s # ss) p =
     run_schedule marshal rt appConf tp ss (exec marshal rt appConf tp s p)"

section \<open>Package main: shutdown on a signal\<close>

definition publishOfflineStatus :: "AppConfig \<Rightarrow> Transport \<Rightarrow> nat \<Rightarrow> Event list \<times> nat" where
  "publishOfflineStatus appConf tp k =
     (let availability = GetDeviceAvailability appConf;
          payload = PayloadNotAvailable availability;
          token = tp k
      in ([Log ''Publishing offline status before shutdown...'' [],
           Publish (Topic availability) 1 True payload,
           WaitTimeout 2000,
           (case (InTime token, Error token) of
              (True, Some e) \<Rightarrow> Log ''Failed to publish offline status: %v'' [S e]
            | _ \<Rightarrow> Log ''Offline status published successfully'' []),
           Sleep 500],
          Suc k))"

text \<open>The goroutine of \<open>main\<close> that receives the signal \<open>sig\<close> from \<open>sigChan\<close>.\<close>

definition signal_handler :: "AppConfig \<Rightarrow> Transport \<Rightarrow> string \<Rightarrow> nat \<Rightarrow> Event list" where
  "signal_handler appConf tp sig k =
     (let (evs, k') = publishOfflineStatus appConf tp k
      in [Log ''Received signal %v, shutting down gracefully...'' [S sig]] @ evs @
         [Disconnect 2000, CancelMain, Exit 0])"

section \<open>Package main: startup\<close>

text \<open>
  The options \<open>createClient\<close> sets on the transport client; durations are in milliseconds,
  the last will is (topic, payload, QoS, retained).
\<close>

record ClientOptions =
  BrokerURL :: Arg
  ClientID :: string
  OptUsername :: string
  OptPassword :: string
  CleanSession :: bool
  AutoReconnect :: bool
  ConnectRetry :: bool
  ConnectRetryInterval :: nat
  MaxReconnectInterval :: nat
  KeepAlive :: nat
  PingTimeout :: nat
  Will :: "string \<times> string \<times> nat \<times> bool"

definition createClient :: "AppConfig \<Rightarrow> Event list \<times> ClientOptions" where
  "createClient appConf =
     (let clientId = ''pc2mqtt-'' @ DeviceName appConf;
          broker = Sprintf ''tcp://%v:%v'' [S (Host (Mqtt appConf)), N (Port (Mqtt appConf))];
          availability = GetDeviceAvailability appConf
      in ([Log ''Creating MQTT client with ID %q for broker %q'' [S clientId, broker],
           Log ''MQTT client created successfully'' []],
          \<lparr> BrokerURL = broker,
            ClientID = clientId,
            OptUsername = Username (Mqtt appConf),
            OptPassword = Password (Mqtt appConf),
            CleanSession = True,
            AutoReconnect = True,
            ConnectRetry = True,
            ConnectRetryInterval = 5000,
            MaxReconnectInterval = 5000,
            KeepAlive = 60000,
            PingTimeout = 10000,
            Will = (Topic availability, PayloadNotAvailable availability, 1, True) \<rparr>))"

text \<open>
  What \<open>token.Wait()\<close> meets on the token of \<open>client.Connect()\<close>: the token completes, with
  its error or none, or it never completes and the wait does not return.
\<close>

datatype ConnectToken = Completed "string option" | Pending

text \<open>
  The transport's connect, by the client options and by whether a connection to the broker
  ever comes up: with connect retry set, the transport keeps retrying and the token does
  not complete until the connection is up; without it, a failed attempt completes the
  token with the error.
\<close>

datatype Broker = Reachable | Unreachable string

fun connect_token :: "ClientOptions \<Rightarrow> Broker \<Rightarrow> ConnectToken" where
  "connect_token opts Reachable = Completed None"
| "connect_token opts (Unreachable err) = (if ConnectRetry opts then Pending else Completed (Some err))"

text \<open>
  Which case of the \<open>select\<close> of \<open>main\<close> fires, from the one-slot channel
  \<open>connectionEstablished\<close>: the receive, when the channel holds a signal as \<open>main\<close> reaches the
  \<open>select\<close> or one is sent before the timer fires; the timer otherwise.
\<close>

datatype Select = Established | TimedOut

definition select_initial :: "nat \<Rightarrow> bool \<Rightarrow> Select" where
  "select_initial buffered sent = (if 0 < buffered \<or> sent then Established else TimedOut)"

text \<open>
  How \<open>main\<close> ends: by \<open>os.Exit\<close> (\<open>log.Fatal\<close> exits with 1), blocked on \<open>mainCtx.Done()\<close>
  with startup complete, or still inside \<open>token.Wait()\<close> on the connect token.
\<close>

datatype Status = Exited nat | AwaitingShutdown | BlockedOnConnect

text \<open>
  \<open>main\<close>, from what its environment answers: the error of \<open>LoadConfig\<close>, the connect
  token, the package-level variables as \<open>main\<close> reaches the \<open>select\<close>, and whether a
  connection signal is sent before the timer of 10 seconds fires.
\<close>

definition main :: "string option \<Rightarrow> Runtime \<Rightarrow> AppConfig \<Rightarrow> ConnectToken \<Rightarrow> Globals \<Rightarrow> bool \<Rightarrow> Event list \<times> Status" where
  "main loadErr rt appConf connectToken g sent =
     (case loadErr of
        Some err \<Rightarrow> ([Log ''Starting application'' [], Log ''%v'' [S err], Exit 1], Exited 1)
      | None \<Rightarrow>
          (let started = [Log ''Starting application'' []] @ fst (createClient appConf) @ [Connect, Wait]
           in case connectToken of
                Pending \<Rightarrow> (started, BlockedOnConnect)
              | Completed (Some e) \<Rightarrow>
                  (started @ [Log ''Failed to connect to MQTT broker: %v'' [S e], Exit 1], Exited 1)
              | Completed None \<Rightarrow>
                  (case select_initial (connectionEstablished g) sent of
                     TimedOut \<Rightarrow>
                       (started @ [SelectWait 10,
                                   Log ''Timeout waiting for initial MQTT connection'' [], Exit 1],
                        Exited 1)
                   | Established \<Rightarrow>
                       (let entityList = GetEntities rt appConf;
                            entitiesWithCommands = FilterEntitiesWithCommands entityList
                        in (started @ [SelectWait 10,
                                       Log ''Initial connection established'' [],
                                       Log ''Loaded %d entities (%d with commands)''
                                         [N (length entityList), N (length entitiesWithCommands)]],
                            AwaitingShutdown)))))"

section \<open>The button actions\<close>

text \<open>
  The bodies of the three function literals; \<open>startErr\<close> is what \<open>cmd.Start()\<close> returns.
\<close>

fun run_action :: "Runtime \<Rightarrow> string option \<Rightarrow> Action \<Rightarrow> Event list" where
  "run_action rt startErr ShutdownAction =
     Log ''Shutdown button pressed - executing system shutdown'' [] #
     (case GetShutdownCommand rt of
        Inl err \<Rightarrow> [Log ''Failed to get shutdown command: %v'' [S err]]
      | Inr cmd \<Rightarrow>
          Start cmd #
          (case startErr of
             Some e \<Rightarrow> [Log ''Failed to start shutdown command: %v'' [S e]]
           | None \<Rightarrow> [Log ''System shutdown initiated'' []]))"
| "run_action rt startErr RebootAction =
     Log ''Reboot button pressed - executing system reboot'' [] #
     (case GetRebootCommand rt of
        Inl err \<Rightarrow> [Log ''Failed to get reboot command: %v'' [S err]]
      | Inr cmd \<Rightarrow>
          Start cmd #
          (case startErr of
             Some e \<Rightarrow> [Log ''Failed to start reboot command: %v'' [S e]]
           | None \<Rightarrow> [Log ''System reboot initiated'' []]))"
| "run_action rt startErr TestAction = [Log ''Test button pressed'' []]"

section \<open>Reading a trace\<close>

text \<open>The publish calls of a trace, each as (topic, QoS, retained, payload), in order.\<close>

fun publishes :: "Event list \<Rightarrow> (string \<times> nat \<times> bool \<times> string) list" where
  "publishes [] = []"
| "publishes (Publish t q r p # evs) = (t, q, r, p) # publishes evs"
| "publishes (e # evs) = publishes evs"

text \<open>The subscribe calls of a trace, each as its filter map and the handler's entities.\<close>

fun subscriptions :: "Event list \<Rightarrow> ((string \<rightharpoonup> nat) \<times> Entity list) list" where
  "subscriptions [] = []"
| "subscriptions (SubscribeMultiple f ents # evs) = (f, ents) # subscriptions evs"
| "subscriptions (e # evs) = subscriptions evs"

text \<open>The entities whose \<open>QueueAction\<close> a trace calls, in order.\<close>

fun queued :: "Event list \<Rightarrow> Entity list" where
  "queued [] = []"
| "queued (QueueAction e # evs) = e # queued evs"
| "queued (e # evs) = queued evs"

text \<open>
  \<open>before a b tr\<close>: the trace \<open>tr\<close> makes the call \<open>b\<close>, and the call \<open>a\<close> ahead of the
  first \<open>b\<close>.
\<close>

definition before :: "Event \<Rightarrow> Event \<Rightarrow> Event list \<Rightarrow> bool" where
  "before a b tr = (b \<in> set tr \<and> a \<in> set (takeWhile (\<lambda>e. e \<noteq> b) tr))"

text \<open>The process exits within a trace when the trace calls \<open>os.Exit\<close>.\<close>

fun is_Exit :: "Event \<Rightarrow> bool" where
  "is_Exit (Exit n) = True"
| "is_Exit e = False"

text \<open>The publish calls goroutine \<open>i\<close> has made.\<close>

definition published_by :: "Process \<Rightarrow> nat \<Rightarrow> (string \<times> nat \<times> bool \<times> string) list" where
  "published_by p i = publishes (snd (routines p ! i))"

section \<open>The naming templates of the specification\<close>

text \<open>
  The three topic templates as the specification words them:
  \<open>{prefix}/{component}/{deviceId}/{deviceName}_{suffix}/config\<close>,
  \<open>{deviceName}/{component}/{suffix}/state\<close> and
  \<open>{deviceName}/{component}/{suffix}/command\<close>.
\<close>

definition spec_discovery_topic :: "AppConfig \<Rightarrow> string \<Rightarrow> string \<Rightarrow> string" where
  "spec_discovery_topic appConf component suffix =
     AutoDiscoveryPrefix (Mqtt appConf) @ ''/'' @ component @ ''/'' @ DeviceId appConf @ ''/''
       @ DeviceName appConf @ ''_'' @ suffix @ ''/config''"

definition spec_state_topic :: "AppConfig \<Rightarrow> string \<Rightarrow> string \<Rightarrow> string" where
  "spec_state_topic appConf component suffix =
     DeviceName appConf @ ''/'' @ component @ ''/'' @ suffix @ ''/state''"

definition spec_command_topic :: "AppConfig \<Rightarrow> string \<Rightarrow> string \<Rightarrow> string" where
  "spec_command_topic appConf component suffix =
     DeviceName appConf @ ''/'' @ component @ ''/'' @ suffix @ ''/command''"

text \<open>The three topics of an entity: discovery, state and command.\<close>

definition topics :: "Entity \<Rightarrow> string \<times> string \<times> string" where
  "topics e =
     (GetDiscoveryTopic e, StateTopic (GetDiscoveryConfig e), CommandTopic (GetDiscoveryConfig e))"

section \<open>Concrete inputs\<close>

definition cfg_office :: AppConfig where
  "cfg_office =
     \<lparr> DeviceId = ''pc-01'', DeviceName = ''office-pc'', DebugMode = False,
       Mqtt = \<lparr> Host = ''broker.local'', Port = 1883, Username = ''ha'', Password = ''secret'',
                AutoDiscoveryPrefix = ''homeassistant'' \<rparr> \<rparr>"

definition cfg_debug :: AppConfig where
  "cfg_debug = cfg_office\<lparr>DebugMode := True\<rparr>"

definition rt_linux :: Runtime where
  "rt_linux = \<lparr> GOOS = ''linux'', GOARCH = ''amd64'' \<rparr>"

definition rt_plan9 :: Runtime where
  "rt_plan9 = \<lparr> GOOS = ''plan9'', GOARCH = ''amd64'' \<rparr>"

text \<open>A transport that completes every token in time and without error.\<close>

definition tp_ok :: Transport where
  "tp_ok k = \<lparr> InTime = True, Error = None \<rparr>"

text \<open>A transport whose tokens never complete within a bounded wait.\<close>

definition tp_stalled :: Transport where
  "tp_stalled k = \<lparr> InTime = False, Error = None \<rparr>"

text \<open>A stand-in for \<open>json.Marshal\<close> that never fails.\<close>

definition marshal_ok :: Marshal where
  "marshal_ok d = Inr (''{unique_id:'' @ UniqueId d @ ''}'')"

text \<open>
  Two schedules of the same callbacks: connect, connection lost, reconnecting, connect.
  In the first the goroutine of the first connection has read the flag and is still on its
  discovery publishes when the connection drops and comes back; the goroutine of the second
  connection reads the flag before the first one writes it. In the second schedule the
  first goroutine returns before the connection drops.
\<close>

definition overlapping_reconnect :: "Sched list" where
  "overlapping_reconnect =
     [Deliver OnConnect, Run 0,
      Deliver (OnConnectionLost ''EOF''), Deliver OnReconnecting, Deliver OnConnect, Run 1,
      Run 0, Run 0, Run 0, Run 0, Run 0,
      Run 1, Run 1, Run 1, Run 1, Run 1]"

definition serial_reconnect :: "Sched list" where
  "serial_reconnect =
     [Deliver OnConnect, Run 0, Run 0, Run 0, Run 0, Run 0, Run 0,
      Deliver (OnConnectionLost ''EOF''), Deliver OnReconnecting, Deliver OnConnect,
      Run 1, Run 1, Run 1, Run 1]"

section \<open>Reading the entities and the expected calls\<close>

text \<open>The \<open>Action\<close> field of an entity, when it is a button.\<close>

fun entity_action :: "Entity \<Rightarrow> Action option" where
  "entity_action (BinarySensor t d) = None"
| "entity_action (Button a t d) = Some a"

text \<open>The number of \<open>/\<close> separators of a topic.\<close>

definition slashes :: "string \<Rightarrow> nat" where "slashes s = length (filter (\<lambda>ch. ch = CHR ''/'') s)"

text \<open>
  The publish calls one expects of the three publication steps, from the entity list:
  one retained QoS-1 publish of the JSON to the discovery topic of every entity whose
  config marshals; one retained QoS-1 publish of the "available" payload to the
  availability topic of every entity; one retained QoS-1 publish of the "on" payload to the
  state topic of every binary sensor.
\<close>

definition discovery_publishes :: "Marshal \<Rightarrow> Entity list \<Rightarrow> (string \<times> nat \<times> bool \<times> string) list" where
  "discovery_publishes marshal ents =
     concat (map (\<lambda>e. case marshal (GetDiscoveryConfig e) of
                         Inl err \<Rightarrow> []
                       | Inr configJson \<Rightarrow> [(GetDiscoveryTopic e, 1, True, configJson)]) ents)"

definition availability_publishes :: "Entity list \<Rightarrow> (string \<times> nat \<times> bool \<times> string) list" where
  "availability_publishes ents =
     map (\<lambda>e. (Topic (Availability (GetDiscoveryConfig e)), 1, True,
                PayloadAvailable (Availability (GetDiscoveryConfig e)))) ents"

definition sensor_publishes :: "Entity list \<Rightarrow> (string \<times> nat \<times> bool \<times> string) list" where
  "sensor_publishes ents =
     map (\<lambda>e. (StateTopic (GetDiscoveryConfig e), 1, True, PayloadOn (GetDiscoveryConfig e)))
       (binary_sensors ents)"

text \<open>The filter map one expects of the subscription: every command topic, at QoS 1.\<close>

definition command_filters :: "Entity list \<Rightarrow> (string \<rightharpoonup> nat)" where
  "command_filters ents =
     (\<lambda>t. if t \<in> CommandTopic ` GetDiscoveryConfig ` set ents then Some 1 else None)"

section \<open>Auxiliary facts about traces\<close>

lemmas entity_defs = GetEntities_def power_sensor_def shutdown_button_def reboot_button_def test_button_def
  GetDeviceAvailability_def GetDevice_def payloadOnline_def payloadOffline_def Let_def

lemma publishes_append: "publishes (xs @ ys) = publishes xs @ publishes ys"
  by (induction xs rule: publishes.induct) simp_all

lemma publishes_debugLog: "publishes (debugLog c m a) = []"
  by (simp add: debugLog_def)

lemma publishes_range_loop:
  assumes "\<And>x k. publishes (fst (body x k)) = g x"
  shows "publishes (fst (range_loop body xs k)) = concat (map g xs)"
proof (induction xs arbitrary: k)
  case Nil
  show ?case by simp
next
  case (Cons x xs)
  obtain evs k1 where b: "body x k = (evs, k1)" by (cases "body x k")
  obtain evs' k2 where r: "range_loop body xs k1 = (evs', k2)" by (cases "range_loop body xs k1")
  have "publishes evs = g x" using assms [of x k] b by simp
  moreover have "publishes evs' = concat (map g xs)" using Cons.IH [of k1] r by simp
  ultimately show ?case using b r by (simp add: publishes_append)
qed

lemma publishes_availability_body:
  "publishes (fst (availability_body c tp e k)) =
     [(Topic (Availability (GetDiscoveryConfig e)), 1, True, PayloadAvailable (Availability (GetDiscoveryConfig e)))]"
  by (simp add: availability_body_def Let_def publishes_debugLog split: option.split)

lemma publishes_publishAvailability:
  "publishes (fst (publishAvailability c tp ents k)) =
     map (\<lambda>e. (Topic (Availability (GetDiscoveryConfig e)), 1, True, PayloadAvailable (Availability (GetDiscoveryConfig e)))) ents"
proof -
  obtain evs k' where r: "range_loop (availability_body c tp) ents k = (evs, k')"
    by (cases "range_loop (availability_body c tp) ents k")
  have "publishes evs = concat (map (\<lambda>e. [(Topic (Availability (GetDiscoveryConfig e)), 1, True, PayloadAvailable (Availability (GetDiscoveryConfig e)))]) ents)"
    using publishes_range_loop [of "availability_body c tp" _ ents k, OF publishes_availability_body] r by simp
  then show ?thesis using r by (simp add: publishAvailability_def publishes_append concat_map_singleton)
qed

lemma publishes_sensor_body:
  "publishes (fst (sensor_body c tp e k)) =
     [(StateTopic (GetDiscoveryConfig e), 1, True, PayloadOn (GetDiscoveryConfig e))]"
  by (simp add: sensor_body_def Let_def publishes_debugLog split: option.split)

lemma publishes_publishSensorStates:
  "publishes (fst (publishSensorStates c tp ents k)) =
     map (\<lambda>e. (StateTopic (GetDiscoveryConfig e), 1, True, PayloadOn (GetDiscoveryConfig e))) (binary_sensors ents)"
proof (cases "binary_sensors ents = []")
  case True
  then show ?thesis by (simp add: publishSensorStates_def publishes_debugLog)
next
  case False
  obtain evs k' where r: "range_loop (sensor_body c tp) (binary_sensors ents) k = (evs, k')"
    by (cases "range_loop (sensor_body c tp) (binary_sensors ents) k")
  have "publishes evs = concat (map (\<lambda>e. [(StateTopic (GetDiscoveryConfig e), 1, True, PayloadOn (GetDiscoveryConfig e))]) (binary_sensors ents))"
    using publishes_range_loop [of "sensor_body c tp" _ "binary_sensors ents" k, OF publishes_sensor_body] r by simp
  then show ?thesis using r False by (simp add: publishSensorStates_def publishes_append concat_map_singleton)
qed

lemma publishes_publishOfflineStatus:
  "publishes (fst (publishOfflineStatus c tp k)) =
     [(Topic (GetDeviceAvailability c), 1, True, PayloadNotAvailable (GetDeviceAvailability c))]"
  by (simp add: publishOfflineStatus_def Let_def split: bool.split option.split)

lemma queued_dispatch:
  "queued (fst (dispatch ents topic)) =
     (case find (\<lambda>e. CommandTopic (GetDiscoveryConfig e) = topic) ents of None \<Rightarrow> [] | Some e \<Rightarrow> [e])"
  by (induction ents) simp_all

lemma matched_dispatch:
  "snd (dispatch ents topic) = (find (\<lambda>e. CommandTopic (GetDiscoveryConfig e) = topic) ents \<noteq> None)"
  by (induction ents) simp_all

lemma no_warning_in_dispatch:
  "Log ''Warning: Received message on unhandled topic %q'' args \<notin> set (fst (dispatch ents topic))"
  by (induction ents) simp_all

lemma queued_append: "queued (xs @ ys) = queued xs @ queued ys"
  by (induction xs rule: queued.induct) simp_all

lemma subscriptions_append: "subscriptions (xs @ ys) = subscriptions xs @ subscriptions ys"
  by (induction xs rule: subscriptions.induct) simp_all

lemma subscriptions_debugLog: "subscriptions (debugLog c m a) = []"
  by (simp add: debugLog_def)

lemma subscriptions_range_loop:
  assumes "\<And>x k. subscriptions (fst (body x k)) = []"
  shows "subscriptions (fst (range_loop body xs k)) = []"
proof (induction xs arbitrary: k)
  case Nil
  show ?case by simp
next
  case (Cons x xs)
  obtain evs k1 where b: "body x k = (evs, k1)" by (cases "body x k")
  obtain evs' k2 where r: "range_loop body xs k1 = (evs', k2)" by (cases "range_loop body xs k1")
  have "subscriptions evs = []" using assms [of x k] b by simp
  moreover have "subscriptions evs' = []" using Cons.IH [of k1] r by simp
  ultimately show ?case using b r by (simp add: subscriptions_append)
qed

lemma publishes_discovery_body:
  "publishes (fst (discovery_body marshal c tp ie k)) =
     (case marshal (GetDiscoveryConfig (snd ie)) of
        Inl err \<Rightarrow> [] | Inr configJson \<Rightarrow> [(GetDiscoveryTopic (snd ie), 1, True, configJson)])"
  by (simp add: discovery_body_def Let_def publishes_debugLog split: sum.split option.split)

lemma subscriptions_discovery_body: "subscriptions (fst (discovery_body marshal c tp ie k)) = []"
  by (simp add: discovery_body_def Let_def subscriptions_debugLog split: sum.split option.split)

lemma subscriptions_availability_body: "subscriptions (fst (availability_body c tp e k)) = []"
  by (simp add: availability_body_def Let_def subscriptions_debugLog split: option.split)

lemma subscriptions_sensor_body: "subscriptions (fst (sensor_body c tp e k)) = []"
  by (simp add: sensor_body_def Let_def subscriptions_debugLog split: option.split)

lemma map_snd_enumerate_fun: "map (\<lambda>ie. g (snd ie)) (enumerate n xs) = map g xs"
  by (induction xs arbitrary: n) simp_all

lemma publishes_publishAutoDiscoveryConfigs:
  "publishes (fst (publishAutoDiscoveryConfigs marshal c tp ents k)) = discovery_publishes marshal ents"
proof -
  let ?g = "\<lambda>e. case marshal (GetDiscoveryConfig e) of
                   Inl err \<Rightarrow> [] | Inr configJson \<Rightarrow> [(GetDiscoveryTopic e, 1, True, configJson)]"
  obtain evs k' where r: "range_loop (discovery_body marshal c tp) (enumerate 0 ents) k = (evs, k')"
    by (cases "range_loop (discovery_body marshal c tp) (enumerate 0 ents) k")
  have "publishes (fst (range_loop (discovery_body marshal c tp) (enumerate 0 ents) k)) =
          concat (map (\<lambda>ie. ?g (snd ie)) (enumerate 0 ents))"
    by (rule publishes_range_loop) (rule publishes_discovery_body)
  also have "map (\<lambda>ie. ?g (snd ie)) (enumerate 0 ents) = map ?g ents"
    by (rule map_snd_enumerate_fun)
  finally have "publishes evs = concat (map ?g ents)" using r by simp
  then show ?thesis using r
    by (simp add: publishAutoDiscoveryConfigs_def publishes_append discovery_publishes_def)
qed

lemma subscriptions_publishAutoDiscoveryConfigs:
  "subscriptions (fst (publishAutoDiscoveryConfigs marshal c tp ents k)) = []"
proof -
  obtain evs k' where r: "range_loop (discovery_body marshal c tp) (enumerate 0 ents) k = (evs, k')"
    by (cases "range_loop (discovery_body marshal c tp) (enumerate 0 ents) k")
  have "subscriptions (fst (range_loop (discovery_body marshal c tp) (enumerate 0 ents) k)) = []"
    by (rule subscriptions_range_loop) (rule subscriptions_discovery_body)
  then show ?thesis using r by (simp add: publishAutoDiscoveryConfigs_def subscriptions_append)
qed

lemma subscriptions_publishAvailability:
  "subscriptions (fst (publishAvailability c tp ents k)) = []"
proof -
  obtain evs k' where r: "range_loop (availability_body c tp) ents k = (evs, k')"
    by (cases "range_loop (availability_body c tp) ents k")
  have "subscriptions (fst (range_loop (availability_body c tp) ents k)) = []"
    by (rule subscriptions_range_loop) (rule subscriptions_availability_body)
  then show ?thesis using r by (simp add: publishAvailability_def subscriptions_append)
qed

lemma subscriptions_publishSensorStates:
  "subscriptions (fst (publishSensorStates c tp ents k)) = []"
proof -
  obtain evs k' where r: "range_loop (sensor_body c tp) (binary_sensors ents) k = (evs, k')"
    by (cases "range_loop (sensor_body c tp) (binary_sensors ents) k")
  have "subscriptions (fst (range_loop (sensor_body c tp) (binary_sensors ents) k)) = []"
    by (rule subscriptions_range_loop) (rule subscriptions_sensor_body)
  then show ?thesis using r
    by (simp add: publishSensorStates_def subscriptions_append subscriptions_debugLog Let_def)
qed

lemma filters_loop_events:
  "publishes (fst (filters_loop c ents f)) = [] \<and> subscriptions (fst (filters_loop c ents f)) = []"
proof (induction ents arbitrary: f)
  case Nil
  show ?case by simp
next
  case (Cons e ents)
  let ?f = "f(CommandTopic (GetDiscoveryConfig e) \<mapsto> 1)"
  obtain evs f' where r: "filters_loop c ents ?f = (evs, f')"
    by (cases "filters_loop c ents ?f")
  have "evs = fst (filters_loop c ents ?f)" by (simp only: r fst_conv)
  moreover have "publishes (fst (filters_loop c ents ?f)) = [] \<and> subscriptions (fst (filters_loop c ents ?f)) = []"
    by (rule Cons.IH)
  ultimately have "publishes evs = [] \<and> subscriptions evs = []" by (simp only:)
  then show ?case using r
    by (simp add: Let_def publishes_append subscriptions_append publishes_debugLog subscriptions_debugLog)
qed

lemma filters_loop_map:
  "snd (filters_loop c ents f) =
     (\<lambda>t. if t \<in> CommandTopic ` GetDiscoveryConfig ` set ents then Some 1 else f t)"
proof (induction ents arbitrary: f)
  case Nil
  show ?case by simp
next
  case (Cons e ents)
  let ?f = "f(CommandTopic (GetDiscoveryConfig e) \<mapsto> 1)"
  obtain evs f' where r: "filters_loop c ents ?f = (evs, f')"
    by (cases "filters_loop c ents ?f")
  have "f' = snd (filters_loop c ents ?f)" by (simp only: r snd_conv)
  also have "\<dots> = (\<lambda>t. if t \<in> CommandTopic ` GetDiscoveryConfig ` set ents then Some 1 else ?f t)"
    by (rule Cons.IH)
  finally have f': "f' = (\<lambda>t. if t \<in> CommandTopic ` GetDiscoveryConfig ` set ents then Some 1 else ?f t)" .
  have "snd (filters_loop c (e # ents) f) = f'" using r by (simp add: Let_def)
  also have "\<dots> = (\<lambda>t. if t \<in> CommandTopic ` GetDiscoveryConfig ` set (e # ents) then Some 1 else f t)"
    unfolding f' by (auto simp add: fun_eq_iff)
  finally show ?case .
qed

lemma publishes_subscribeToCommandTopics:
  "publishes (fst (subscribeToCommandTopics c tp ents k)) = []"
proof -
  obtain dbg f where r: "filters_loop c ents Map.empty = (dbg, f)"
    by (cases "filters_loop c ents Map.empty")
  have "publishes dbg = []" using filters_loop_events [of c ents Map.empty] r by simp
  then show ?thesis using r
    by (simp add: subscribeToCommandTopics_def publishes_append publishes_debugLog split: option.split)
qed

lemma subscriptions_subscribeToCommandTopics:
  "ents \<noteq> [] \<Longrightarrow>
   subscriptions (fst (subscribeToCommandTopics c tp ents k)) = [(command_filters ents, ents)]"
proof -
  assume ne: "ents \<noteq> []"
  obtain dbg f where r: "filters_loop c ents Map.empty = (dbg, f)"
    by (cases "filters_loop c ents Map.empty")
  have d: "subscriptions dbg = []" using filters_loop_events [of c ents Map.empty] r by simp
  have f: "f = command_filters ents"
    using filters_loop_map [of c ents Map.empty] r by (simp add: command_filters_def)
  show ?thesis using r ne d f
    by (simp add: subscribeToCommandTopics_def subscriptions_append subscriptions_debugLog split: option.split)
qed

lemma buttons_of_GetEntities:
  "FilterEntitiesWithCommands (GetEntities rt c) =
     [shutdown_button rt c, reboot_button rt c] @ (if DebugMode c then [test_button rt c] else [])"
  by (simp add: FilterEntitiesWithCommands_def GetEntities_def power_sensor_def shutdown_button_def
        reboot_button_def test_button_def Let_def)

lemma buttons_nonempty: "FilterEntitiesWithCommands (GetEntities rt c) \<noteq> []"
  by (simp add: buttons_of_GetEntities)

lemma availability_publishes_GetEntities:
  "availability_publishes (GetEntities rt c) =
     map (\<lambda>e. (Topic (Availability (GetDiscoveryConfig e)), 1, True, ''online'')) (GetEntities rt c)"
  by (simp add: availability_publishes_def entity_defs)

lemma sensor_publishes_GetEntities:
  "sensor_publishes (GetEntities rt c) = [(DeviceName c @ ''/state'', 1, True, ''online'')]"
  by (simp add: sensor_publishes_def entity_defs)

lemma pc_of_step:
  "fst (post_connect_step marshal rt c tp pc done k) =
     (case pc of
        AtFlagRead \<Rightarrow> (if done then AtAvailability else AtDiscovery)
      | AtDiscovery \<Rightarrow> AtFlagWrite
      | AtFlagWrite \<Rightarrow> AtAvailability
      | AtAvailability \<Rightarrow> AtSensorStates
      | AtSensorStates \<Rightarrow> AtSubscribe
      | AtSubscribe \<Rightarrow> Returned
      | Returned \<Rightarrow> Returned)"
  by (cases pc) (simp_all add: case_prod_beta Let_def)

lemma publishes_of_step:
  "publishes (fst (snd (post_connect_step marshal rt c tp pc done k))) =
     (case pc of
        AtDiscovery \<Rightarrow> discovery_publishes marshal (GetEntities rt c)
      | AtAvailability \<Rightarrow> availability_publishes (GetEntities rt c)
      | AtSensorStates \<Rightarrow> sensor_publishes (GetEntities rt c)
      | _ \<Rightarrow> [])"
  by (cases pc)
     (simp_all add: case_prod_beta Let_def publishes_publishAutoDiscoveryConfigs
        publishes_publishAvailability publishes_publishSensorStates
        publishes_subscribeToCommandTopics availability_publishes_def sensor_publishes_def)

lemma subscriptions_of_step:
  "subscriptions (fst (snd (post_connect_step marshal rt c tp pc done k))) =
     (case pc of
        AtSubscribe \<Rightarrow> [(command_filters (FilterEntitiesWithCommands (GetEntities rt c)),
                         FilterEntitiesWithCommands (GetEntities rt c))]
      | _ \<Rightarrow> [])"
  by (cases pc)
     (simp_all add: case_prod_beta Let_def subscriptions_publishAutoDiscoveryConfigs
        subscriptions_publishAvailability subscriptions_publishSensorStates
        subscriptions_subscribeToCommandTopics [OF buttons_nonempty])

lemma flag_of_step:
  "fst (snd (snd (post_connect_step marshal rt c tp pc done k))) = (done \<or> pc = AtFlagWrite)"
  by (cases pc) (simp_all add: case_prod_beta Let_def)

text \<open>
  The two schedules, for every configuration, marshaller and transport: when the second
  goroutine reads the flag before the first has written it, both connections publish the
  discovery configs; when the first goroutine has returned, the second publishes
  availability and sensor state only. Both subscribe.
\<close>

lemma overlapping_reconnect_publishes:
  "map fst (routines (run_schedule marshal rt c tp overlapping_reconnect initial_process)) =
     [Returned, Returned]
   \<and> published_by (run_schedule marshal rt c tp overlapping_reconnect initial_process) 0 =
       discovery_publishes marshal (GetEntities rt c) @ availability_publishes (GetEntities rt c)
         @ sensor_publishes (GetEntities rt c)
   \<and> published_by (run_schedule marshal rt c tp overlapping_reconnect initial_process) 1 =
       discovery_publishes marshal (GetEntities rt c) @ availability_publishes (GetEntities rt c)
         @ sensor_publishes (GetEntities rt c)
   \<and> subscriptions (snd (routines
         (run_schedule marshal rt c tp overlapping_reconnect initial_process) ! 1)) =
       [(command_filters (FilterEntitiesWithCommands (GetEntities rt c)),
         FilterEntitiesWithCommands (GetEntities rt c))]"
  by (simp add: overlapping_reconnect_def initial_process_def initial_globals_def published_by_def
        run_routine_def onConnect_def onConnectionLost_def onReconnecting_def
        case_prod_beta Let_def publishes_append subscriptions_append
        publishes_of_step subscriptions_of_step pc_of_step flag_of_step
        del: post_connect_step.simps)

lemma serial_reconnect_publishes:
  "map fst (routines (run_schedule marshal rt c tp serial_reconnect initial_process)) =
     [Returned, Returned]
   \<and> published_by (run_schedule marshal rt c tp serial_reconnect initial_process) 0 =
       discovery_publishes marshal (GetEntities rt c) @ availability_publishes (GetEntities rt c)
         @ sensor_publishes (GetEntities rt c)
   \<and> published_by (run_schedule marshal rt c tp serial_reconnect initial_process) 1 =
       availability_publishes (GetEntities rt c) @ sensor_publishes (GetEntities rt c)
   \<and> subscriptions (snd (routines
         (run_schedule marshal rt c tp serial_reconnect initial_process) ! 1)) =
       [(command_filters (FilterEntitiesWithCommands (GetEntities rt c)),
         FilterEntitiesWithCommands (GetEntities rt c))]"
  by (simp add: serial_reconnect_def initial_process_def initial_globals_def published_by_def
        run_routine_def onConnect_def onConnectionLost_def onReconnecting_def
        case_prod_beta Let_def publishes_append subscriptions_append
        publishes_of_step subscriptions_of_step pc_of_step flag_of_step
        del: post_connect_step.simps)

text \<open>
  Startup completes exactly when the configuration loads, the connect token completes
  without error and the \<open>select\<close> receives the connection signal.
\<close>

lemma startup_completes_iff:
  "(snd (main loadErr rt c tok g sent) = AwaitingShutdown) =
      (loadErr = None \<and> tok = Completed None \<and> (0 < connectionEstablished g \<or> sent))"
  by (cases loadErr; cases tok; simp add: main_def select_initial_def Let_def split: option.split)

section \<open>The claims\<close>

subsection \<open>C1: discovery on the first connection only\<close>

text \<open>
  Claim C1 asks that discovery configs are published during the first successful connection
  and never again on a later reconnect, as the comment in the source does ("Only publish
  auto-discovery configs on initial connection"). The goroutine of a connection reads
  \<open>initialConnectionDone\<close>, blocks on the discovery publishes, and writes the flag only
  afterwards, without a lock. With callbacks connect, connection lost, reconnecting,
  connect, and the second goroutine reading the flag before the first has written it, the
  second connection publishes the three discovery configs again, ahead of availability and
  sensor state. With the same callbacks and the first goroutine returned before the
  connection drops, the second connection publishes availability and sensor state only.
\<close>

theorem overlapping_reconnect_republishes_discovery:
  "published_by (run_schedule marshal_ok rt_linux cfg_office tp_ok overlapping_reconnect initial_process) 1 =
     [(''homeassistant/binary_sensor/pc-01/office-pc_sensor_power/config'', 1, True, ''{unique_id:office-pc_sensor_power}''),
      (''homeassistant/button/pc-01/office-pc_button_shutdown/config'', 1, True, ''{unique_id:office-pc_button_shutdown}''),
      (''homeassistant/button/pc-01/office-pc_button_reboot/config'', 1, True, ''{unique_id:office-pc_button_reboot}''),
      (''office-pc/binary_sensor/availability'', 1, True, ''online''),
      (''office-pc/state'', 1, True, ''online''),
      (''office-pc/state'', 1, True, ''online''),
      (''office-pc/state'', 1, True, ''online'')]
   \<and> published_by (run_schedule marshal_ok rt_linux cfg_office tp_ok serial_reconnect initial_process) 1 =
     [(''office-pc/binary_sensor/availability'', 1, True, ''online''),
      (''office-pc/state'', 1, True, ''online''),
      (''office-pc/state'', 1, True, ''online''),
      (''office-pc/state'', 1, True, ''online'')]"
  using overlapping_reconnect_publishes [of marshal_ok rt_linux cfg_office tp_ok]
        serial_reconnect_publishes [of marshal_ok rt_linux cfg_office tp_ok]
  by (simp add: discovery_publishes_def availability_publishes_def sensor_publishes_def
        marshal_ok_def entity_defs cfg_office_def)

subsection \<open>C2: the entity list\<close>

text \<open>
  Claim C2. For every configuration, \<open>GetEntities\<close> returns, in this order, the power
  binary sensor, the shutdown button, the reboot button and, exactly when the debug flag is
  set, the test button, whose action only logs a line; its length is 3, or 4 in debug mode.
\<close>

theorem GetEntities_fixed_order: "map is_Button (GetEntities rt c) = [False, True, True] @ (if DebugMode c then [True] else [])
  \<and> map entity_action (GetEntities rt c) = [None, Some ShutdownAction, Some RebootAction] @ (if DebugMode c then [Some TestAction] else [])
  \<and> map (DisplayName \<circ> GetDiscoveryConfig) (GetEntities rt c) = [''Power'', ''Shutdown'', ''Reboot''] @ (if DebugMode c then [''Test''] else [])
  \<and> length (GetEntities rt c) = (if DebugMode c then 4 else 3)
  \<and> run_action rt startErr TestAction = [Log ''Test button pressed'' []]"
  by (simp add: entity_defs)

text \<open>Witness for C2: three entities without the debug flag, four with it.\<close>

theorem GetEntities_fixed_order_witness:
  "length (GetEntities rt_linux cfg_office) = 3
   \<and> length (GetEntities rt_linux cfg_debug) = 4
   \<and> map (DisplayName \<circ> GetDiscoveryConfig) (GetEntities rt_linux cfg_debug) =
       [''Power'', ''Shutdown'', ''Reboot'', ''Test'']"
  using GetEntities_fixed_order [of rt_linux cfg_office None]
        GetEntities_fixed_order [of rt_linux cfg_debug None]
  by (simp add: cfg_debug_def cfg_office_def)

subsection \<open>C3: the topic templates\<close>

text \<open>
  Claim C3, as stated, fails: the power sensor's state topic is the host availability topic
  \<open>office-pc/state\<close>, which no component and suffix turn into
  \<open>{deviceName}/{component}/{suffix}/state\<close>, and the sensor has no command topic.
\<close>

theorem sensor_topics_off_template: "hd (GetEntities rt_linux cfg_office) \<in> set (GetEntities rt_linux cfg_office)
  \<and> StateTopic (GetDiscoveryConfig (hd (GetEntities rt_linux cfg_office))) = ''office-pc/state''
  \<and> \<not> (\<exists>component suffix. StateTopic (GetDiscoveryConfig (hd (GetEntities rt_linux cfg_office))) = spec_state_topic cfg_office component suffix)
  \<and> CommandTopic (GetDiscoveryConfig (hd (GetEntities rt_linux cfg_office))) = ''''
  \<and> \<not> (\<exists>component suffix. CommandTopic (GetDiscoveryConfig (hd (GetEntities rt_linux cfg_office))) = spec_command_topic cfg_office component suffix)"
proof -
  have a: "StateTopic (GetDiscoveryConfig (hd (GetEntities rt_linux cfg_office))) = ''office-pc/state''"
    by (simp add: entity_defs cfg_office_def)
  have b: "CommandTopic (GetDiscoveryConfig (hd (GetEntities rt_linux cfg_office))) = ''''"
    by (simp add: entity_defs cfg_office_def)
  have c: "''office-pc/state'' \<noteq> spec_state_topic cfg_office component suffix" for component suffix
  proof
    assume "''office-pc/state'' = spec_state_topic cfg_office component suffix"
    then have "slashes ''office-pc/state'' = slashes (spec_state_topic cfg_office component suffix)" by simp
    then show False by (simp add: slashes_def spec_state_topic_def cfg_office_def)
  qed
  have d: "hd (GetEntities rt_linux cfg_office) \<in> set (GetEntities rt_linux cfg_office)"
    by (simp add: GetEntities_def cfg_office_def)
  show ?thesis using a b c d by (simp add: spec_command_topic_def)
qed

text \<open>
  Claim C3, amended. For every configuration, every entity's discovery topic is
  \<open>{prefix}/{component}/{deviceId}/{deviceName}_{suffix}/config\<close>; every button's state and
  command topics are \<open>{deviceName}/button/{suffix}/state\<close> and
  \<open>{deviceName}/button/{suffix}/command\<close>; the power sensor's state topic is
  \<open>{deviceName}/state\<close> and its command topic is empty. With device name \<open>office-pc\<close> and
  prefix \<open>homeassistant\<close> the shutdown button's topics are the ones of the scenario.
\<close>

theorem topics_follow_templates: "map topics (GetEntities rt c) =
   [(spec_discovery_topic c ''binary_sensor'' ''sensor_power'', DeviceName c @ ''/state'', ''''),
    (spec_discovery_topic c ''button'' ''button_shutdown'', spec_state_topic c ''button'' ''shutdown'', spec_command_topic c ''button'' ''shutdown''),
    (spec_discovery_topic c ''button'' ''button_reboot'', spec_state_topic c ''button'' ''reboot'', spec_command_topic c ''button'' ''reboot'')]
   @ (if DebugMode c then [(spec_discovery_topic c ''button'' ''button_test'', spec_state_topic c ''button'' ''test'', spec_command_topic c ''button'' ''test'')] else [])
  \<and> (DeviceName c = ''office-pc'' \<and> AutoDiscoveryPrefix (Mqtt c) = ''homeassistant'' \<longrightarrow>
       topics (GetEntities rt c ! 1) = (''homeassistant/button/'' @ DeviceId c @ ''/office-pc_button_shutdown/config'', ''office-pc/button/shutdown/state'', ''office-pc/button/shutdown/command''))"
  by (simp add: entity_defs topics_def spec_discovery_topic_def spec_state_topic_def spec_command_topic_def)

text \<open>Witness for C3: the scenario's configuration.\<close>

theorem topics_follow_templates_witness:
  "topics (GetEntities rt_linux cfg_office ! 1) =
     (''homeassistant/button/pc-01/office-pc_button_shutdown/config'',
      ''office-pc/button/shutdown/state'', ''office-pc/button/shutdown/command'')"
  using topics_follow_templates [of rt_linux cfg_office]
  by (simp add: cfg_office_def)

subsection \<open>C4: the availability channels\<close>

text \<open>
  Claim C4, as stated, fails: the power sensor's discovery config carries an availability
  of its own, on \<open>office-pc/binary_sensor/availability\<close>, not the one of
  \<open>GetDeviceAvailability\<close>, and the per-connection availability publish targets both topics.
\<close>

theorem sensor_availability_not_shared: "Availability (GetDiscoveryConfig (hd (GetEntities rt_linux cfg_office))) \<noteq> GetDeviceAvailability cfg_office
  \<and> Topic (Availability (GetDiscoveryConfig (hd (GetEntities rt_linux cfg_office)))) = ''office-pc/binary_sensor/availability''
  \<and> Topic (GetDeviceAvailability cfg_office) = ''office-pc/state''
  \<and> map fst (publishes (fst (publishAvailability cfg_office tp_ok (GetEntities rt_linux cfg_office) 0))) =
       [''office-pc/binary_sensor/availability'', ''office-pc/state'', ''office-pc/state'']"
  by (simp add: publishes_publishAvailability entity_defs cfg_office_def)

text \<open>
  Claim C4, amended. For every configuration, every button of \<open>GetEntities\<close> references the
  availability of \<open>GetDeviceAvailability\<close> (\<open>{deviceName}/state\<close>, "online", "offline"); the
  power sensor references \<open>{deviceName}/binary_sensor/availability\<close> with the same two
  payloads; the per-connection availability publish makes one retained QoS-1 "online"
  publish per entity, to that entity's availability topic.
\<close>

theorem availability_channels: "map (Availability \<circ> GetDiscoveryConfig) (GetEntities rt c) =
     \<lparr> Topic = DeviceName c @ ''/binary_sensor/availability'', PayloadAvailable = ''online'', PayloadNotAvailable = ''offline'' \<rparr>
       # replicate (if DebugMode c then 3 else 2) (GetDeviceAvailability c)
  \<and> GetDeviceAvailability c = \<lparr> Topic = DeviceName c @ ''/state'', PayloadAvailable = ''online'', PayloadNotAvailable = ''offline'' \<rparr>
  \<and> publishes (fst (publishAvailability c tp (GetEntities rt c) k)) =
       (DeviceName c @ ''/binary_sensor/availability'', 1, True, ''online'')
         # replicate (if DebugMode c then 3 else 2) (DeviceName c @ ''/state'', 1, True, ''online'')"
  by (simp add: publishes_publishAvailability entity_defs numeral_3_eq_3 numeral_2_eq_2)

text \<open>Witness for C4: the four availability references of the debug configuration.\<close>

theorem availability_channels_witness:
  "map (Availability \<circ> GetDiscoveryConfig) (GetEntities rt_linux cfg_debug) =
     [\<lparr> Topic = ''office-pc/binary_sensor/availability'', PayloadAvailable = ''online'',
        PayloadNotAvailable = ''offline'' \<rparr>,
      \<lparr> Topic = ''office-pc/state'', PayloadAvailable = ''online'', PayloadNotAvailable = ''offline'' \<rparr>,
      \<lparr> Topic = ''office-pc/state'', PayloadAvailable = ''online'', PayloadNotAvailable = ''offline'' \<rparr>,
      \<lparr> Topic = ''office-pc/state'', PayloadAvailable = ''online'', PayloadNotAvailable = ''offline'' \<rparr>]"
  using availability_channels [of rt_linux cfg_debug tp_ok 0]
  by (simp add: cfg_debug_def cfg_office_def numeral_3_eq_3)

subsection \<open>C5: command dispatch\<close>

text \<open>
  Claim C5. For every list of entities with commands and every inbound message, the
  handler calls \<open>QueueAction\<close> on the first entity whose command topic equals the message
  topic, once, and on no other; it calls it exactly when some entity matches, whatever
  the payload; it logs the warning exactly when none matches.
\<close>

theorem handler_dispatch:
  "queued (fst (handler ents n (topic, payload))) =
     (case find (\<lambda>e. CommandTopic (GetDiscoveryConfig e) = topic) ents of None \<Rightarrow> [] | Some e \<Rightarrow> [e])
   \<and> (length (queued (fst (handler ents n (topic, payload)))) = 1) =
       (\<exists>e \<in> set ents. CommandTopic (GetDiscoveryConfig e) = topic)
   \<and> (Log ''Warning: Received message on unhandled topic %q'' [S topic] \<in> set (fst (handler ents n (topic, payload)))) =
       (\<not> (\<exists>e \<in> set ents. CommandTopic (GetDiscoveryConfig e) = topic))"
proof -
  obtain evs matched where d: "dispatch ents topic = (evs, matched)" by (cases "dispatch ents topic")
  have q: "queued evs = (case find (\<lambda>e. CommandTopic (GetDiscoveryConfig e) = topic) ents of None \<Rightarrow> [] | Some e \<Rightarrow> [e])"
    using queued_dispatch [of ents topic] d by simp
  have m: "matched = (find (\<lambda>e. CommandTopic (GetDiscoveryConfig e) = topic) ents \<noteq> None)"
    using matched_dispatch [of ents topic] d by simp
  have w: "Log ''Warning: Received message on unhandled topic %q'' [S topic] \<notin> set evs"
    using no_warning_in_dispatch [of "[S topic]" ents topic] d by simp
  have f: "(find (\<lambda>e. CommandTopic (GetDiscoveryConfig e) = topic) ents = None) =
           (\<not> (\<exists>e \<in> set ents. CommandTopic (GetDiscoveryConfig e) = topic))"
    by (auto simp add: find_None_iff)
  have 1: "queued (fst (handler ents n (topic, payload))) = queued evs"
    using d by (simp add: handler_def queued_append)
  have 2: "(Log ''Warning: Received message on unhandled topic %q'' [S topic] \<in> set (fst (handler ents n (topic, payload)))) = (\<not> matched)"
    using d w by (simp add: handler_def)
  have 4: "(length (queued evs) = 1) = (\<exists>e \<in> set ents. CommandTopic (GetDiscoveryConfig e) = topic)"
    using q f by (cases "find (\<lambda>e. CommandTopic (GetDiscoveryConfig e) = topic) ents") simp_all
  show ?thesis using 1 2 4 q m f by simp
qed

text \<open>
  Witness for C5: a message on the reboot command topic queues the reboot button, and a
  message on an unregistered topic queues nothing.
\<close>

theorem handler_dispatch_witness:
  "queued (fst (handler (FilterEntitiesWithCommands (GetEntities rt_linux cfg_office)) 0
       (''office-pc/button/reboot/command'', ''PRESS''))) = [reboot_button rt_linux cfg_office]
   \<and> queued (fst (handler (FilterEntitiesWithCommands (GetEntities rt_linux cfg_office)) 7
       (''office-pc/button/sleep/command'', ''PRESS''))) = []"
  using handler_dispatch [of "FilterEntitiesWithCommands (GetEntities rt_linux cfg_office)" 0
          "''office-pc/button/reboot/command''" "''PRESS''"]
        handler_dispatch [of "FilterEntitiesWithCommands (GetEntities rt_linux cfg_office)" 7
          "''office-pc/button/sleep/command''" "''PRESS''"]
  by (simp add: buttons_of_GetEntities shutdown_button_def reboot_button_def cfg_office_def)

subsection \<open>C6: shutdown on a signal\<close>

text \<open>
  Claim C6. On a termination signal, whatever token the transport returns, the process
  makes one publish, of "offline" (retained, QoS 1) to the host availability topic, waits on
  it for at most 2000 ms, and only then calls disconnect with 2000 ms; the trace ends with
  \<open>os.Exit(0)\<close>, its only exit.
\<close>

theorem signal_shutdown_sequence:
  "publishes (signal_handler c tp sig k) = [(Topic (GetDeviceAvailability c), 1, True, ''offline'')]
   \<and> Topic (GetDeviceAvailability c) = DeviceName c @ ''/state''
   \<and> before (Publish (DeviceName c @ ''/state'') 1 True ''offline'') (WaitTimeout 2000) (signal_handler c tp sig k)
   \<and> before (WaitTimeout 2000) (Disconnect 2000) (signal_handler c tp sig k)
   \<and> before (Publish (DeviceName c @ ''/state'') 1 True ''offline'') (Disconnect 2000) (signal_handler c tp sig k)
   \<and> before (Disconnect 2000) (Exit 0) (signal_handler c tp sig k)
   \<and> filter is_Exit (signal_handler c tp sig k) = [Exit 0]
   \<and> last (signal_handler c tp sig k) = Exit 0"
  by (simp add: signal_handler_def publishOfflineStatus_def before_def GetDeviceAvailability_def
        payloadOffline_def Let_def split: bool.split option.split)

text \<open>Witness for C6: a transport whose token does not complete in time.\<close>

theorem signal_shutdown_sequence_witness:
  "publishes (signal_handler cfg_office tp_stalled ''terminated'' 0) =
     [(''office-pc/state'', 1, True, ''offline'')]
   \<and> last (signal_handler cfg_office tp_stalled ''terminated'' 0) = Exit 0"
  using signal_shutdown_sequence [of cfg_office tp_stalled "''terminated''" 0]
  by (simp add: cfg_office_def)

subsection \<open>C7: waiting for the first connection\<close>

text \<open>
  Claim C7 asks that, after the connect call, the process waits for the connection signal
  for at most 10 seconds and exits fatally on the timeout. \<open>main\<close> first waits on the connect
  token without a bound, and \<open>createClient\<close> sets connect retry, so while no connection
  comes up the token stays pending: for every configuration \<open>main\<close> is still inside that
  wait, has not reached the \<open>select\<close> with the 10-second timer, and has not exited.
\<close>

theorem connect_wait_blocks_without_timeout:
  "connect_token (snd (createClient c)) (Unreachable err) = Pending
   \<and> snd (main None rt c Pending g sent) = BlockedOnConnect
   \<and> last (fst (main None rt c Pending g sent)) = Wait
   \<and> SelectWait 10 \<notin> set (fst (main None rt c Pending g sent))
   \<and> filter is_Exit (fst (main None rt c Pending g sent)) = []"
  by (simp add: main_def createClient_def Let_def)

subsection \<open>C8: platform commands\<close>

text \<open>
  Claim C8. \<open>GetShutdownCommand\<close> and \<open>GetRebootCommand\<close> return an error exactly when the
  host OS is none of windows, darwin and linux, and a command otherwise. On an unsupported
  OS the shutdown and reboot actions log the failure and return; when the command does not
  start they log that and return; no action ever exits the process.
\<close>

theorem platform_commands_fail_soft: "(isl (GetShutdownCommand rt) = (GOOS rt \<notin> {WINDOWS, MACOS, LINUX}))
  \<and> (isl (GetRebootCommand rt) = (GOOS rt \<notin> {WINDOWS, MACOS, LINUX}))
  \<and> (GOOS rt \<notin> {WINDOWS, MACOS, LINUX} \<longrightarrow>
       run_action rt startErr ShutdownAction =
         [Log ''Shutdown button pressed - executing system shutdown'' [],
          Log ''Failed to get shutdown command: %v'' [S (GOOS rt @ '' does not support shutdown'')]]
     \<and> run_action rt startErr RebootAction =
         [Log ''Reboot button pressed - executing system reboot'' [],
          Log ''Failed to get reboot command: %v'' [S (GOOS rt @ '' does not support reboot'')]])
  \<and> (GOOS rt \<in> {WINDOWS, MACOS, LINUX} \<longrightarrow>
       (\<exists>cmd. GetShutdownCommand rt = Inr cmd \<and>
          run_action rt (Some err) ShutdownAction =
            [Log ''Shutdown button pressed - executing system shutdown'' [], Start cmd,
             Log ''Failed to start shutdown command: %v'' [S err]])
     \<and> (\<exists>cmd. GetRebootCommand rt = Inr cmd \<and>
          run_action rt (Some err) RebootAction =
            [Log ''Reboot button pressed - executing system reboot'' [], Start cmd,
             Log ''Failed to start reboot command: %v'' [S err]]))
  \<and> filter is_Exit (run_action rt startErr a) = []"
proof -
  have 1: "isl (GetShutdownCommand rt) = (GOOS rt \<notin> {WINDOWS, MACOS, LINUX})"
    by (simp add: GetShutdownCommand_def)
  have 2: "isl (GetRebootCommand rt) = (GOOS rt \<notin> {WINDOWS, MACOS, LINUX})"
    by (simp add: GetRebootCommand_def)
  have 3: "GOOS rt \<notin> {WINDOWS, MACOS, LINUX} \<Longrightarrow>
       run_action rt startErr ShutdownAction =
         [Log ''Shutdown button pressed - executing system shutdown'' [],
          Log ''Failed to get shutdown command: %v'' [S (GOOS rt @ '' does not support shutdown'')]]
     \<and> run_action rt startErr RebootAction =
         [Log ''Reboot button pressed - executing system reboot'' [],
          Log ''Failed to get reboot command: %v'' [S (GOOS rt @ '' does not support reboot'')]]"
    by (simp add: GetShutdownCommand_def GetRebootCommand_def)
  have 4: "GOOS rt \<in> {WINDOWS, MACOS, LINUX} \<Longrightarrow>
       (\<exists>cmd. GetShutdownCommand rt = Inr cmd \<and>
          run_action rt (Some err) ShutdownAction =
            [Log ''Shutdown button pressed - executing system shutdown'' [], Start cmd,
             Log ''Failed to start shutdown command: %v'' [S err]])
     \<and> (\<exists>cmd. GetRebootCommand rt = Inr cmd \<and>
          run_action rt (Some err) RebootAction =
            [Log ''Reboot button pressed - executing system reboot'' [], Start cmd,
             Log ''Failed to start reboot command: %v'' [S err]])"
    by (auto simp add: GetShutdownCommand_def GetRebootCommand_def)
  have 5: "filter is_Exit (run_action rt startErr a) = []"
    by (cases a) (simp_all split: sum.split option.split)
  show ?thesis using 1 2 3 4 5 by blast
qed

text \<open>Witness for C8: plan9 is unsupported; on linux the reboot command fails to start.\<close>

theorem platform_commands_fail_soft_witness: "isl (GetShutdownCommand rt_plan9) \<and> isl (GetRebootCommand rt_plan9)
  \<and> run_action rt_plan9 None ShutdownAction =
         [Log ''Shutdown button pressed - executing system shutdown'' [],
          Log ''Failed to get shutdown command: %v'' [S ''plan9 does not support shutdown'']]
  \<and> \<not> isl (GetRebootCommand rt_linux)
  \<and> run_action rt_linux (Some ''exec: not found'') RebootAction =
            [Log ''Reboot button pressed - executing system reboot'' [], Start (Command ''systemctl'' [''reboot'', ''--ignore-inhibitors'']),
             Log ''Failed to start reboot command: %v'' [S ''exec: not found'']]"
  using platform_commands_fail_soft [of rt_plan9 None "''x''" ShutdownAction] platform_commands_fail_soft [of rt_linux None "''exec: not found''" ShutdownAction]
  by (simp add: rt_plan9_def rt_linux_def WINDOWS_def MACOS_def LINUX_def GetRebootCommand_def)

subsection \<open>C9: QoS\<close>

text \<open>
  Claim C9 asks for \<open>Qos = 1\<close> in every entity's discovery config, debug mode included.
  In debug mode the test button's literal leaves the field out: the four configs carry
  1, 1, 1 and 0.
\<close>

theorem debug_button_qos_zero: "map (Qos \<circ> GetDiscoveryConfig) (GetEntities rt_linux cfg_debug) = [1, 1, 1, 0]"
  by (simp add: entity_defs cfg_debug_def cfg_office_def)

subsection \<open>C10: the power sensor reads the host availability topic\<close>

text \<open>
  Claim C10. For every configuration, the power sensor is the one binary sensor of
  \<open>GetEntities\<close>; its state topic is the topic \<open>{deviceName}/state\<close> of
  \<open>GetDeviceAvailability\<close>, and its on and off payloads are the availability payloads
  "online" and "offline". So the per-connection sensor-state publish is one of the
  availability publishes, and the "offline" publish at shutdown writes the sensor's off
  payload to the sensor's state topic.
\<close>

theorem sensor_state_is_host_availability: "binary_sensors (GetEntities rt c) = [hd (GetEntities rt c)]
  \<and> StateTopic (GetDiscoveryConfig (hd (GetEntities rt c))) = Topic (GetDeviceAvailability c)
  \<and> Topic (GetDeviceAvailability c) = DeviceName c @ ''/state''
  \<and> PayloadOn (GetDiscoveryConfig (hd (GetEntities rt c))) = PayloadAvailable (GetDeviceAvailability c)
  \<and> PayloadAvailable (GetDeviceAvailability c) = ''online''
  \<and> PayloadOff (GetDiscoveryConfig (hd (GetEntities rt c))) = PayloadNotAvailable (GetDeviceAvailability c)
  \<and> PayloadNotAvailable (GetDeviceAvailability c) = ''offline''
  \<and> publishes (fst (publishSensorStates c tp (GetEntities rt c) k)) = [(DeviceName c @ ''/state'', 1, True, ''online'')]
  \<and> (DeviceName c @ ''/state'', 1, True, ''online'') \<in> set (publishes (fst (publishAvailability c tp' (GetEntities rt c) k')))
  \<and> publishes (fst (publishOfflineStatus c tp'' k'')) =
       [(StateTopic (GetDiscoveryConfig (hd (GetEntities rt c))), 1, True, PayloadOff (GetDiscoveryConfig (hd (GetEntities rt c))))]"
  by (simp add: publishes_publishAvailability publishes_publishSensorStates publishes_publishOfflineStatus entity_defs)

text \<open>Witness for C10: the two publishes on \<open>office-pc/state\<close>.\<close>

theorem sensor_state_is_host_availability_witness:
  "publishes (fst (publishSensorStates cfg_office tp_ok (GetEntities rt_linux cfg_office) 0)) =
     [(''office-pc/state'', 1, True, ''online'')]
   \<and> publishes (fst (publishOfflineStatus cfg_office tp_ok 5)) =
     [(''office-pc/state'', 1, True, ''offline'')]"
  using sensor_state_is_host_availability [of rt_linux cfg_office tp_ok 0 tp_ok 0 tp_ok 5]
  by (simp add: cfg_office_def)

end
